theory Spec2Isabelle
  imports Complex_Main "HOL-Library.Monad_Syntax"
begin

section \<open>Data model (types.ts)\<close>

text \<open>
  The interfaces of \<^verbatim>\<open>types.ts\<close> as records. An optional field (\<^verbatim>\<open>description?\<close>,
  \<^verbatim>\<open>image?\<close>, \<^verbatim>\<open>delivery?\<close>, \<^verbatim>\<open>password?\<close>) is an \<open>option\<close>. A JavaScript
  \<^verbatim>\<open>number\<close> is modelled by a rational: arithmetic is exact, rounding and the non-finite
  values of IEEE doubles are outside the model. Field names that two interfaces share, or
  that clash with a constant of HOL (\<open>id\<close>, \<open>image\<close>, \<open>zip\<close>, \<open>total\<close>), carry the
  interface's name.
\<close>

record Product =
  product_id :: string
  product_name :: string
  price :: rat
  displayPrice :: string
  category :: string
  description :: "string option"
  product_image :: "string option"

record DeliveryDetails =
  fullName :: string
  delivery_email :: string
  phone :: string
  address :: string
  city :: string
  zip_code :: string

datatype order_status = processing | shipped | delivered

record Order =
  order_id :: string
  date :: string
  items :: "Product list"
  order_total :: rat
  status :: order_status
  delivery :: "DeliveryDetails option"

record User =
  name :: string
  email :: string
  password :: "string option"
  cart :: "Product list"
  orders :: "Order list"

section \<open>Persisted storage\<close>

text \<open>
  \<^verbatim>\<open>localStorage\<close> holds text under three keys. The program touches a stored text in three
  ways only: it tests it for truthiness (every text but the empty one is truthy), it hands
  it to \<^verbatim>\<open>JSON.parse\<close>, and it overwrites it with the result of \<^verbatim>\<open>JSON.stringify\<close>.
  A text is therefore represented by what \<^verbatim>\<open>JSON.parse\<close> makes of it: \<open>Wellformed v\<close>
  is a text that parses to the value \<open>v\<close>, \<open>Unparsable raw\<close> is the text \<open>raw\<close> on which
  \<^verbatim>\<open>JSON.parse\<close> throws a \<^verbatim>\<open>SyntaxError\<close>; \<open>Unparsable []\<close> is the empty text.
  TypeScript's types are erased at run time and the program uses a parsed value at its
  declared type without a check; the model follows the declared types, so a well-formed
  text under a key holds a value of the type the program reads there.
\<close>

datatype 'a blob = Unparsable string | Wellformed 'a

datatype error = SyntaxError

definition truthy :: "'a blob \<Rightarrow> bool" where
  "truthy t = (t \<noteq> Unparsable [])"

definition JSON_parse :: "'a blob \<Rightarrow> error + 'a" where
  "JSON_parse t = (case t of Unparsable raw \<Rightarrow> Inl SyntaxError | Wellformed v \<Rightarrow> Inr v)"

definition JSON_stringify :: "'a \<Rightarrow> 'a blob" where
  "JSON_stringify v = Wellformed v"

text \<open>The Directory is the object parsed from \<^verbatim>\<open>USERS_DB\<close>. The program reads and
  writes it by key only (\<^verbatim>\<open>db[email]\<close>), never iterates it: a map from email to
  account. (A key that names a property every JavaScript object inherits, such as
  \<^verbatim>\<open>constructor\<close>, is not an email and is outside the model.)\<close>

type_synonym Directory = "string \<rightharpoonup> User"

text \<open>The three keys of \<^verbatim>\<open>STORAGE_KEYS\<close>; \<open>None\<close> is a key that is not set
  (\<^verbatim>\<open>getItem\<close> returns \<^verbatim>\<open>null\<close>).\<close>

record Storage =
  USERS_DB :: "Directory blob option"
  SESSION :: "User blob option"
  GUEST_CART :: "Product list blob option"

section \<open>The Record Codec\<close>

text \<open>
  The codec is the platform's \<^verbatim>\<open>JSON.stringify\<close> and \<^verbatim>\<open>JSON.parse\<close>. The storage model
  above takes their composition to be the identity on well-typed values. That assumption is
  spelled out here on the JSON value tree of a record. \<open>encode\<close> is the tree that
  \<^verbatim>\<open>JSON.stringify\<close> writes for a record of the interface: its properties as key/value
  pairs, a property that is absent (\<^verbatim>\<open>undefined\<close>) left out. \<open>decode\<close> is the program's
  reading of a parsed tree at the interface type: each declared property looked up by
  key, a missing optional key read as absent; \<open>None\<close> is a tree that is not of the
  interface's shape.
\<close>

datatype json =
  JNull
| JBool bool
| JNumber rat
| JString string
| JArray "json list"
| JObject "(string \<times> json) list"

definition optional_property :: "string \<Rightarrow> json option \<Rightarrow> (string \<times> json) list" where
  "optional_property k v = (case v of None \<Rightarrow> [] | Some j \<Rightarrow> [(k, j)])"







definition encode_Product :: "Product \<Rightarrow> json" where
  "encode_Product p =
     JObject ([(''id'', JString (product_id p)),
               (''name'', JString (product_name p)),
               (''price'', JNumber (price p)),
               (''displayPrice'', JString (displayPrice p)),
               (''category'', JString (category p))]
              @ optional_property ''description'' (map_option JString (description p))
              @ optional_property ''image'' (map_option JString (product_image p)))"


definition encode_DeliveryDetails :: "DeliveryDetails \<Rightarrow> json" where
  "encode_DeliveryDetails d =
     JObject [(''fullName'', JString (fullName d)),
              (''email'', JString (delivery_email d)),
              (''phone'', JString (phone d)),
              (''address'', JString (address d)),
              (''city'', JString (city d)),
              (''zip'', JString (zip_code d))]"


definition encode_status :: "order_status \<Rightarrow> json" where
  "encode_status st =
     JString (case st of processing \<Rightarrow> ''processing'' | shipped \<Rightarrow> ''shipped''
                       | delivered \<Rightarrow> ''delivered'')"


definition encode_Order :: "Order \<Rightarrow> json" where
  "encode_Order ord =
     JObject ([(''id'', JString (order_id ord)),
               (''date'', JString (date ord)),
               (''items'', JArray (map encode_Product (items ord))),
               (''total'', JNumber (order_total ord)),
               (''status'', encode_status (status ord))]
              @ optional_property ''delivery'' (map_option encode_DeliveryDetails (delivery ord)))"


definition encode_User :: "User \<Rightarrow> json" where
  "encode_User u =
     JObject ([(''name'', JString (name u)),
               (''email'', JString (email u))]
              @ optional_property ''password'' (map_option JString (password u))
              @ [(''cart'', JArray (map encode_Product (cart u))),
                 (''orders'', JArray (map encode_Order (orders u)))])"


section \<open>Component state\<close>

text \<open>The \<^verbatim>\<open>useState\<close> cells of \<^verbatim>\<open>App\<close> together with the storage they are saved to.
  What the handlers print to the console, and the \<^verbatim>\<open>alert\<close> of the guest checkout, are
  not part of the state.\<close>

record state =
  isCatalogOpen :: bool
  isCartOpen :: bool
  isAuthOpen :: bool
  isProfileOpen :: bool
  isCheckoutOpen :: bool
  cartItems :: "Product list"
  user :: "User option"
  localStorage :: Storage

text \<open>A handler either returns or is left by an uncaught exception; in both cases the
  state updates and storage writes made so far remain.\<close>

datatype outcome = Returned state | Thrown error state

fun state_of :: "outcome \<Rightarrow> state" where
  "state_of (Returned s) = s"
| "state_of (Thrown e s) = s"

fun returns :: "outcome \<Rightarrow> bool" where
  "returns (Returned s) = True"
| "returns (Thrown e s) = False"

section \<open>Directory access\<close>

text \<open>\<^verbatim>\<open>const dbStr = localStorage.getItem(USERS_DB); const db = dbStr ? JSON.parse(dbStr) : {}\<close>,
  as written in \<^verbatim>\<open>persistUser\<close>, in the initialization effect and in \<^verbatim>\<open>handleLogin\<close>.\<close>

definition read_db :: "Storage \<Rightarrow> error + Directory" where
  "read_db st =
     (case USERS_DB st of
        None \<Rightarrow> Inr Map.empty
      | Some dbStr \<Rightarrow> if truthy dbStr then JSON_parse dbStr else Inr Map.empty)"

text \<open>\<^verbatim>\<open>String.prototype.toLowerCase\<close> on the ASCII letters.\<close>

definition lower_char :: "char \<Rightarrow> char" where
  "lower_char c =
     (let n = (of_char c :: nat) in if 65 \<le> n \<and> n \<le> 90 then char_of (n + 32) else c)"

definition toLowerCase :: "string \<Rightarrow> string" where
  "toLowerCase s = map lower_char s"

text \<open>\<^verbatim>\<open>db[e] || db[e.toLowerCase()]\<close>: a stored account is an object and so truthy; a
  missing key reads as \<^verbatim>\<open>undefined\<close>.\<close>

definition lookup :: "Directory \<Rightarrow> string \<Rightarrow> User option" where
  "lookup db e = (case db e of Some u \<Rightarrow> Some u | None \<Rightarrow> db (toLowerCase e))"

section \<open>Persistence helpers\<close>

definition persistUser :: "User \<Rightarrow> state \<Rightarrow> outcome" where
  "persistUser updatedUser s =
     (let s1 = s\<lparr>user := Some updatedUser\<rparr>;
          s2 = s1\<lparr>localStorage := (localStorage s1)\<lparr>SESSION := Some (JSON_stringify updatedUser)\<rparr>\<rparr>
      in case read_db (localStorage s2) of
           Inl e \<Rightarrow> Thrown e s2
         | Inr db \<Rightarrow>
             Returned (s2\<lparr>localStorage := (localStorage s2)
               \<lparr>USERS_DB := Some (JSON_stringify (db(email updatedUser \<mapsto> updatedUser)))\<rparr>\<rparr>))"

definition persistGuestCart :: "Product list \<Rightarrow> state \<Rightarrow> state" where
  "persistGuestCart its s =
     s\<lparr>localStorage := (localStorage s)\<lparr>GUEST_CART := Some (JSON_stringify its)\<rparr>\<rparr>"

section \<open>The handlers of App\<close>

text \<open>The \<^verbatim>\<open>useState\<close> defaults, over a given storage: the state in which the
  initialization effect runs.\<close>

definition initial_state :: "Storage \<Rightarrow> state" where
  "initial_state st =
     \<lparr>isCatalogOpen = False, isCartOpen = False, isAuthOpen = False, isProfileOpen = False,
      isCheckoutOpen = False, cartItems = [], user = None, localStorage = st\<rparr>"

text \<open>The \<^verbatim>\<open>catch\<close> of the initialization effect: \<^verbatim>\<open>localStorage.removeItem(SESSION)\<close>.\<close>

definition session_corrupted :: "state \<Rightarrow> state" where
  "session_corrupted s = s\<lparr>localStorage := (localStorage s)\<lparr>SESSION := None\<rparr>\<rparr>"

text \<open>The \<^verbatim>\<open>else\<close> branch of the initialization effect: load the guest cart; a guest
  cart that does not parse is reported and left alone.\<close>

definition load_guest_cart :: "state \<Rightarrow> state" where
  "load_guest_cart s =
     (case GUEST_CART (localStorage s) of
        None \<Rightarrow> s
      | Some guestCartStr \<Rightarrow>
          if truthy guestCartStr
          then (case JSON_parse guestCartStr of
                  Inl e \<Rightarrow> s
                | Inr its \<Rightarrow> s\<lparr>cartItems := its\<rparr>)
          else s)"

text \<open>The \<^verbatim>\<open>try\<close> block of the initialization effect, for the session text \<open>sessionStr\<close>.
  Both calls of \<^verbatim>\<open>JSON.parse\<close> are inside it, so a \<^verbatim>\<open>SyntaxError\<close> of either one
  reaches the \<^verbatim>\<open>catch\<close>.\<close>

definition restore_session :: "User blob \<Rightarrow> state \<Rightarrow> state" where
  "restore_session sessionStr s =
     (case JSON_parse sessionStr of
        Inl e \<Rightarrow> session_corrupted s
      | Inr sessionUser \<Rightarrow>
          (case read_db (localStorage s) of
             Inl e \<Rightarrow> session_corrupted s
           | Inr db \<Rightarrow>
               (case lookup db (email sessionUser) of
                  Some freshUser \<Rightarrow> s\<lparr>user := Some freshUser, cartItems := cart freshUser\<rparr>
                | None \<Rightarrow>
                    s\<lparr>localStorage := (localStorage s)
                         \<lparr>USERS_DB := Some (JSON_stringify (db(email sessionUser \<mapsto> sessionUser)))\<rparr>,
                      user := Some sessionUser,
                      cartItems := cart sessionUser\<rparr>)))"

definition initialization :: "state \<Rightarrow> state" where
  "initialization s =
     (case SESSION (localStorage s) of
        None \<Rightarrow> load_guest_cart s
      | Some sessionStr \<Rightarrow>
          if truthy sessionStr then restore_session sessionStr s else load_guest_cart s)"


definition removeFromCart :: "string \<Rightarrow> state \<Rightarrow> outcome" where
  "removeFromCart i s =
     (let newCart = filter (\<lambda>item. product_id item \<noteq> i) (cartItems s);
          s1 = s\<lparr>cartItems := newCart\<rparr>
      in case user s of
           Some u \<Rightarrow> persistUser (u\<lparr>cart := newCart\<rparr>) s1
         | None \<Rightarrow> Returned (persistGuestCart newCart s1))"

definition initCheckout :: "state \<Rightarrow> state" where
  "initCheckout s = s\<lparr>isCartOpen := False, isCheckoutOpen := True\<rparr>"

text \<open>The object literal \<^verbatim>\<open>newOrder\<close> of \<^verbatim>\<open>processOrder\<close>. The identifier
  (\<^verbatim>\<open>Math.random().toString(36).substr(2, 9).toUpperCase()\<close>) and the time stamp
  (\<^verbatim>\<open>new Date().toISOString()\<close>) come from the environment and are parameters.
  \<^verbatim>\<open>reduce((acc, item) => acc + item.price, 0)\<close> is a left fold from \<open>0\<close>.\<close>

definition newOrder :: "string \<Rightarrow> string \<Rightarrow> Product list \<Rightarrow> DeliveryDetails \<Rightarrow> Order" where
  "newOrder rnd now its deliveryDetails =
     \<lparr>order_id = rnd,
      date = now,
      items = its,
      order_total = foldl (\<lambda>acc item. acc + price item) 0 its,
      status = processing,
      delivery = Some deliveryDetails\<rparr>"

definition processOrder :: "string \<Rightarrow> string \<Rightarrow> DeliveryDetails \<Rightarrow> state \<Rightarrow> outcome" where
  "processOrder rnd now deliveryDetails s =
     (if length (cartItems s) = 0 then Returned s
      else
        (case user s of
           Some u \<Rightarrow>
             (case persistUser
                     (u\<lparr>orders := orders u @ [newOrder rnd now (cartItems s) deliveryDetails],
                        cart := []\<rparr>) s of
                Thrown e s1 \<Rightarrow> Thrown e s1
              | Returned s1 \<Rightarrow>
                  Returned (s1\<lparr>isProfileOpen := True, isCheckoutOpen := False, cartItems := []\<rparr>))
         | None \<Rightarrow>
             Returned (s\<lparr>cartItems := [],
                          localStorage := (localStorage s)\<lparr>GUEST_CART := None\<rparr>,
                          isCheckoutOpen := False\<rparr>)))"

text \<open>\<^verbatim>\<open>db[e] || db[e.toLowerCase()] || userFromAuth\<close> is the lookup with the
  authenticated record as the last alternative. In \<^verbatim>\<open>freshUser.cart || []\<close>, as in
  \<^verbatim>\<open>user.orders || []\<close> of \<^verbatim>\<open>processOrder\<close>, the left operand is an array and so
  truthy: the expression is the array.\<close>

definition handleLogin :: "User \<Rightarrow> state \<Rightarrow> outcome" where
  "handleLogin userFromAuth s =
     (case read_db (localStorage s) of
        Inl e \<Rightarrow> Thrown e s
      | Inr db \<Rightarrow>
          (let freshUser = (case lookup db (email userFromAuth) of
                              Some u \<Rightarrow> u
                            | None \<Rightarrow> userFromAuth);
               guestCart = cartItems s;
               userCart = cart freshUser;
               mergedCart = userCart @ guestCart;
               updatedUser = freshUser\<lparr>cart := mergedCart\<rparr>
           in case persistUser updatedUser s of
                Thrown e s1 \<Rightarrow> Thrown e s1
              | Returned s1 \<Rightarrow>
                  Returned (s1\<lparr>cartItems := mergedCart,
                               localStorage := (localStorage s1)\<lparr>GUEST_CART := None\<rparr>,
                               isAuthOpen := False\<rparr>)))"

text \<open>\<open>confirmed\<close> is the answer of \<^verbatim>\<open>window.confirm\<close>.\<close>

definition handleLogout :: "bool \<Rightarrow> state \<Rightarrow> state" where
  "handleLogout confirmed s =
     (if confirmed
      then s\<lparr>localStorage := (localStorage s)\<lparr>SESSION := None\<rparr>,
             user := None, cartItems := [], isProfileOpen := False\<rparr>
      else s)"

section \<open>Predicates and example values for the statements\<close>

text \<open>The Session snapshot and the Directory entry under the snapshot's email are the
  same record.\<close>

definition session_matches_directory :: "state \<Rightarrow> bool" where
  "session_matches_directory s =
     (case SESSION (localStorage s) of
        Some (Wellformed su) \<Rightarrow>
          (case read_db (localStorage s) of
             Inr db \<Rightarrow> db (email su) = Some su
           | Inl e \<Rightarrow> False)
      | _ \<Rightarrow> False)"

text \<open>The record \<open>u\<close> is the live account, the Session snapshot, and the entry under its
  email in the Directory \<open>db\<close> updated at that one key.\<close>

definition persisted_as :: "User \<Rightarrow> Directory \<Rightarrow> state \<Rightarrow> bool" where
  "persisted_as u db s \<longleftrightarrow>
     user s = Some u
     \<and> SESSION (localStorage s) = Some (JSON_stringify u)
     \<and> read_db (localStorage s) = Inr (db(email u \<mapsto> u))"

definition p1 :: Product where
  "p1 = \<lparr>product_id = ''p1'', product_name = ''Spoon'', price = 10, displayPrice = ''10'',
          category = ''kitchen'', description = None, product_image = None\<rparr>"

definition p2 :: Product where
  "p2 = \<lparr>product_id = ''p2'', product_name = ''Bowl'', price = 25.5, displayPrice = ''25.50'',
          category = ''kitchen'', description = Some ''carved bowl'', product_image = None\<rparr>"

definition p3 :: Product where
  "p3 = \<lparr>product_id = ''p3'', product_name = ''Panel'', price = 120, displayPrice = ''120'',
          category = ''decor'', description = None, product_image = Some ''panel.png''\<rparr>"

definition alice :: User where
  "alice = \<lparr>name = ''Alice'', email = ''alice@x.com'', password = None,
             cart = [p1, p2], orders = []\<rparr>"

definition bob :: User where
  "bob = \<lparr>name = ''Bob'', email = ''bob@y.org'', password = Some ''secret'',
           cart = [p3], orders = []\<rparr>"

definition home :: DeliveryDetails where
  "home = \<lparr>fullName = ''Alice A'', delivery_email = ''alice@x.com'', phone = ''123'',
            address = ''1 Main St'', city = ''Town'', zip_code = ''00001''\<rparr>"

text \<open>A storage whose Directory knows Alice and Bob, with no Session and a saved Guest Cart,
  and the component over it once that cart is loaded.\<close>

definition two_accounts :: Storage where
  "two_accounts =
     \<lparr>USERS_DB = Some (JSON_stringify [''alice@x.com'' \<mapsto> alice, ''bob@y.org'' \<mapsto> bob]),
      SESSION = None, GUEST_CART = Some (JSON_stringify [p2, p3])\<rparr>"


text \<open>Alice is signed in on this device (a Session snapshot exists) but the Directory
  key is not set.\<close>

definition session_without_directory :: state where
  "session_without_directory =
     initial_state \<lparr>USERS_DB = None, SESSION = Some (JSON_stringify alice), GUEST_CART = None\<rparr>"

text \<open>The same, with a Directory text that is not JSON.\<close>

definition session_with_corrupt_directory :: state where
  "session_with_corrupt_directory =
     initial_state \<lparr>USERS_DB = Some (Unparsable ''{not json''),
                    SESSION = Some (JSON_stringify alice), GUEST_CART = None\<rparr>"

text \<open>An account registered with capital letters in its email.\<close>

definition Alice_X :: User where
  "Alice_X = alice\<lparr>email := ''Alice@X.com''\<rparr>"

text \<open>Alice signed in, with her cart live.\<close>

definition alice_signed_in :: state where
  "alice_signed_in =
     (initial_state (two_accounts\<lparr>SESSION := Some (JSON_stringify alice), GUEST_CART := None\<rparr>))
       \<lparr>user := Some alice, cartItems := [p1, p2]\<rparr>"



section \<open>Reading the Directory text\<close>

lemma read_db_SESSION_update: "read_db (st\<lparr>SESSION := x\<rparr>) = read_db st"
  by (simp add: read_db_def)

lemma read_db_GUEST_CART_update: "read_db (st\<lparr>GUEST_CART := x\<rparr>) = read_db st"
  by (simp add: read_db_def)

lemma read_db_written: "read_db (st\<lparr>USERS_DB := Some (JSON_stringify db)\<rparr>) = Inr db"
  by (simp add: read_db_def JSON_stringify_def JSON_parse_def truthy_def)

lemma read_db_absent: "USERS_DB st = None \<Longrightarrow> read_db st = Inr Map.empty"
  by (simp add: read_db_def)

lemma read_db_empty_text: "USERS_DB st = Some (Unparsable []) \<Longrightarrow> read_db st = Inr Map.empty"
  by (simp add: read_db_def truthy_def)

lemma read_db_wellformed: "USERS_DB st = Some (Wellformed db) \<Longrightarrow> read_db st = Inr db"
  by (simp add: read_db_def truthy_def JSON_parse_def)

lemma read_db_unparsable:
  "USERS_DB st = Some (Unparsable raw) \<Longrightarrow> raw \<noteq> [] \<Longrightarrow> read_db st = Inl SyntaxError"
  by (simp add: read_db_def truthy_def JSON_parse_def)

section \<open>persistUser\<close>

lemma persistUser_readable:
  assumes "read_db (localStorage s) = Inr db"
  shows "persistUser u s =
           Returned (s\<lparr>user := Some u,
                       localStorage := (localStorage s)
                         \<lparr>SESSION := Some (JSON_stringify u),
                          USERS_DB := Some (JSON_stringify (db(email u \<mapsto> u)))\<rparr>\<rparr>)"
  using assms by (simp add: persistUser_def Let_def read_db_SESSION_update)

lemma persistUser_unreadable:
  assumes "read_db (localStorage s) = Inl e"
  shows "persistUser u s =
           Thrown e (s\<lparr>user := Some u,
                        localStorage := (localStorage s)\<lparr>SESSION := Some (JSON_stringify u)\<rparr>\<rparr>)"
  using assms by (simp add: persistUser_def Let_def read_db_SESSION_update)

lemma persistUser_returns_iff:
  "returns (persistUser u s) \<longleftrightarrow> (\<exists>db. read_db (localStorage s) = Inr db)"
  by (cases "read_db (localStorage s)") (simp_all add: persistUser_readable persistUser_unreadable)



lemma persistUser_in_sync:
  assumes "read_db (localStorage s) = Inr db"
  shows "session_matches_directory (state_of (persistUser u s))"
  by (simp add: persistUser_readable [OF assms] session_matches_directory_def
        JSON_stringify_def read_db_def truthy_def JSON_parse_def)

lemma persisted_as_cartItems_update [simp]:
  "persisted_as u db (s\<lparr>cartItems := c\<rparr>) = persisted_as u db s"
  by (simp add: persisted_as_def)

lemma persisted_as_isCartOpen_update [simp]:
  "persisted_as u db (s\<lparr>isCartOpen := b\<rparr>) = persisted_as u db s"
  by (simp add: persisted_as_def)

lemma persisted_as_isProfileOpen_update [simp]:
  "persisted_as u db (s\<lparr>isProfileOpen := b\<rparr>) = persisted_as u db s"
  by (simp add: persisted_as_def)

lemma persisted_as_isCheckoutOpen_update [simp]:
  "persisted_as u db (s\<lparr>isCheckoutOpen := b\<rparr>) = persisted_as u db s"
  by (simp add: persisted_as_def)

section \<open>Lookup and lower case\<close>



lemma lookup_exact: "db e = Some u \<Longrightarrow> lookup db e = Some u"
  by (simp add: lookup_def)

lemma lookup_lowercased:
  "db e = None \<Longrightarrow> db (toLowerCase e) = Some u \<Longrightarrow> lookup db e = Some u"
  by (simp add: lookup_def)


lemma toLowerCase_Alice_X: "toLowerCase ''Alice@X.com'' = ''alice@x.com''"
  by code_simp

lemma toLowerCase_alice_x: "toLowerCase ''alice@x.com'' = ''alice@x.com''"
  by code_simp

section \<open>The handlers on a readable and on an unreadable Directory\<close>

lemma initialization_wellformed_session:
  "SESSION (localStorage s) = Some (Wellformed sessionUser) \<Longrightarrow>
   initialization s = restore_session (Wellformed sessionUser) s"
  by (simp add: initialization_def truthy_def)

lemma restore_session_repairs:
  assumes "read_db (localStorage s) = Inr db"
    and "lookup db (email sessionUser) = None"
  shows "restore_session (Wellformed sessionUser) s =
           s\<lparr>localStorage := (localStorage s)
                \<lparr>USERS_DB := Some (JSON_stringify (db(email sessionUser \<mapsto> sessionUser)))\<rparr>,
             user := Some sessionUser,
             cartItems := cart sessionUser\<rparr>"
  using assms by (simp add: restore_session_def JSON_parse_def)

lemma restore_session_unreadable:
  assumes "read_db (localStorage s) = Inl e"
  shows "restore_session (Wellformed sessionUser) s = session_corrupted s"
  using assms by (simp add: restore_session_def JSON_parse_def)

text \<open>Persist, then reload the page: the initialization effect over the storage that
  \<^verbatim>\<open>persistUser\<close> left restores the persisted record as the live account, and its
  cart as the live cart.\<close>

lemma reload_after_persistUser:
  assumes "read_db (localStorage s) = Inr db"
  shows "user (initialization (initial_state (localStorage (state_of (persistUser u s))))) = Some u
    \<and> cartItems (initialization (initial_state (localStorage (state_of (persistUser u s)))))
        = cart u"
proof -
  let ?st = "localStorage (state_of (persistUser u s))"
  have ses: "SESSION (localStorage (initial_state ?st)) = Some (Wellformed u)"
    by (simp add: persistUser_readable [OF assms] initial_state_def JSON_stringify_def)
  have db: "read_db (localStorage (initial_state ?st)) = Inr (db(email u \<mapsto> u))"
    by (simp add: persistUser_readable [OF assms] initial_state_def read_db_written)
  have "lookup (db(email u \<mapsto> u)) (email u) = Some u"
    by (simp add: lookup_def)
  then show ?thesis
    using db
    by (simp add: initialization_wellformed_session [OF ses] restore_session_def JSON_parse_def)
qed

lemma handleLogin_readable:
  assumes "read_db (localStorage s) = Inr db"
  shows "handleLogin userFromAuth s =
     Returned ((state_of (persistUser
                  ((case lookup db (email userFromAuth) of Some u \<Rightarrow> u | None \<Rightarrow> userFromAuth)
                     \<lparr>cart := cart (case lookup db (email userFromAuth) of
                                      Some u \<Rightarrow> u | None \<Rightarrow> userFromAuth) @ cartItems s\<rparr>) s))
        \<lparr>cartItems := cart (case lookup db (email userFromAuth) of
                             Some u \<Rightarrow> u | None \<Rightarrow> userFromAuth) @ cartItems s,
         localStorage := (localStorage (state_of (persistUser
                  ((case lookup db (email userFromAuth) of Some u \<Rightarrow> u | None \<Rightarrow> userFromAuth)
                     \<lparr>cart := cart (case lookup db (email userFromAuth) of
                                      Some u \<Rightarrow> u | None \<Rightarrow> userFromAuth) @ cartItems s\<rparr>) s)))
                           \<lparr>GUEST_CART := None\<rparr>,
         isAuthOpen := False\<rparr>)"
  using assms by (simp add: handleLogin_def Let_def persistUser_readable)

lemma handleLogin_unreadable:
  "read_db (localStorage s) = Inl e \<Longrightarrow> handleLogin u s = Thrown e s"
  by (simp add: handleLogin_def)

lemma handleLogin_returns:
  "read_db (localStorage s) = Inr db \<Longrightarrow> returns (handleLogin u s)"
  by (simp add: handleLogin_def Let_def persistUser_readable)





section \<open>The example states\<close>

lemma alice_signed_in_facts:
  "user alice_signed_in = Some alice"
  "cartItems alice_signed_in = [p1, p2]"
  "read_db (localStorage alice_signed_in)
     = Inr [''alice@x.com'' \<mapsto> alice, ''bob@y.org'' \<mapsto> bob]"
  by (simp_all add: alice_signed_in_def initial_state_def two_accounts_def read_db_wellformed
        JSON_stringify_def)

section \<open>Login: the Cart Synchronizer\<close>



section \<open>Startup: the Self-Healing Resolver\<close>



section \<open>Directory lookup and letter case\<close>

text \<open>
  Claim C3. The claim does not hold of the code. The fallback lower-cases the queried
  email and reads that one key; the stored keys are never lower-cased. A key with capital
  letters is one the program writes itself: a first login of an account whose email is
  \<^verbatim>\<open>Alice@X.com\<close> leaves the Directory with that single key. It differs from
  \<^verbatim>\<open>alice@x.com\<close> by letter case only, and the lookup of \<^verbatim>\<open>alice@x.com\<close> finds
  nothing. In the opposite direction (stored key in lower case, query with capitals) the
  entry is found.
\<close>

theorem lookup_misses_key_with_capitals:
  "read_db (localStorage (state_of (handleLogin Alice_X
      (initial_state \<lparr>USERS_DB = None, SESSION = None, GUEST_CART = None\<rparr>))))
     = Inr [''Alice@X.com'' \<mapsto> Alice_X]
   \<and> toLowerCase ''Alice@X.com'' = toLowerCase ''alice@x.com''
   \<and> lookup [''Alice@X.com'' \<mapsto> Alice_X] ''alice@x.com'' = None
   \<and> lookup [''alice@x.com'' \<mapsto> alice] ''Alice@X.com'' = Some alice"
proof -
  let ?s = "initial_state \<lparr>USERS_DB = None, SESSION = None, GUEST_CART = None\<rparr>"
  have db: "read_db (localStorage ?s) = Inr Map.empty"
    by (simp add: initial_state_def read_db_absent)
  have e: "email Alice_X = ''Alice@X.com''" "Alice_X\<lparr>cart := cart Alice_X\<rparr> = Alice_X"
    by (simp_all add: Alice_X_def)
  have c: "cartItems ?s = []"
    by (simp add: initial_state_def)
  have "read_db (localStorage (state_of (handleLogin Alice_X ?s)))
          = Inr [''Alice@X.com'' \<mapsto> Alice_X]"
    by (simp add: handleLogin_readable [OF db] persistUser_readable [OF db] lookup_def
          read_db_GUEST_CART_update read_db_written c e)
  then show ?thesis
    by (simp add: lookup_def toLowerCase_Alice_X toLowerCase_alice_x)
qed

section \<open>A Directory text that does not parse\<close>

text \<open>
  Claim C4, as stated, fails: with a Session snapshot for Alice and a Directory text that
  is not JSON, the initialization effect ends in its \<^verbatim>\<open>catch\<close> and removes the Session,
  activating no account; \<^verbatim>\<open>handleLogin\<close> and \<^verbatim>\<open>persistUser\<close> are left by the
  uncaught \<^verbatim>\<open>SyntaxError\<close>.
\<close>

theorem corrupt_directory_clears_session:
  "USERS_DB (localStorage session_with_corrupt_directory) = Some (Unparsable ''{not json'')
   \<and> SESSION (localStorage session_with_corrupt_directory) = Some (JSON_stringify alice)
   \<and> SESSION (localStorage (initialization session_with_corrupt_directory)) = None
   \<and> user (initialization session_with_corrupt_directory) = None
   \<and> \<not> returns (handleLogin alice session_with_corrupt_directory)
   \<and> \<not> returns (persistUser alice session_with_corrupt_directory)"
proof -
  have db: "read_db (localStorage session_with_corrupt_directory) = Inl SyntaxError"
    by (simp add: session_with_corrupt_directory_def initial_state_def read_db_unparsable)
  have ses: "SESSION (localStorage session_with_corrupt_directory) = Some (Wellformed alice)"
    by (simp add: session_with_corrupt_directory_def initial_state_def JSON_stringify_def)
  have "initialization session_with_corrupt_directory
          = session_corrupted session_with_corrupt_directory"
    by (simp add: initialization_wellformed_session [OF ses] restore_session_unreadable [OF db])
  then show ?thesis
    by (simp add: handleLogin_unreadable [OF db] persistUser_unreadable [OF db] session_corrupted_def)
      (simp add: session_with_corrupt_directory_def initial_state_def)
qed

text \<open>
  Claim C4, amended. A Directory key that is not set, or that holds the empty text, reads
  as the empty directory: \<^verbatim>\<open>persistUser\<close> and \<^verbatim>\<open>handleLogin\<close> return, what
  \<^verbatim>\<open>persistUser\<close> writes is the directory with the one entry, and the initialization
  effect keeps a well-formed Session and activates its snapshot. Any other Directory text
  that does not parse is not read as empty by \<^verbatim>\<open>handleLogin\<close> and \<^verbatim>\<open>persistUser\<close>:
  the read raises \<^verbatim>\<open>SyntaxError\<close>; \<^verbatim>\<open>handleLogin\<close> is left before it changes
  anything; \<^verbatim>\<open>persistUser\<close> is left after it has set the live account and written the
  Session, without writing the Directory.
\<close>

theorem directory_text_absent_or_unparsable:
  "(USERS_DB (localStorage s) = None \<or> USERS_DB (localStorage s) = Some (Unparsable [])
      \<longrightarrow> read_db (localStorage s) = Inr Map.empty
        \<and> returns (persistUser u s)
        \<and> read_db (localStorage (state_of (persistUser u s))) = Inr [email u \<mapsto> u]
        \<and> returns (handleLogin u s)
        \<and> (SESSION (localStorage s) = Some (Wellformed su)
             \<longrightarrow> SESSION (localStorage (initialization s)) = Some (Wellformed su)
               \<and> user (initialization s) = Some su))
   \<and> (USERS_DB (localStorage s) = Some (Unparsable raw) \<and> raw \<noteq> []
      \<longrightarrow> read_db (localStorage s) = Inl SyntaxError
        \<and> handleLogin u s = Thrown SyntaxError s
        \<and> persistUser u s =
            Thrown SyntaxError
              (s\<lparr>user := Some u,
                 localStorage := (localStorage s)\<lparr>SESSION := Some (JSON_stringify u)\<rparr>\<rparr>))"
proof (intro conjI impI)
  assume "USERS_DB (localStorage s) = None \<or> USERS_DB (localStorage s) = Some (Unparsable [])"
  then show db: "read_db (localStorage s) = Inr Map.empty"
    by (auto simp: read_db_absent read_db_empty_text)
  show "returns (persistUser u s)"
    by (simp add: persistUser_readable [OF db])
  show "read_db (localStorage (state_of (persistUser u s))) = Inr [email u \<mapsto> u]"
    by (simp add: persistUser_readable [OF db] read_db_written)
  show "returns (handleLogin u s)"
    by (rule handleLogin_returns [OF db])
  assume ses: "SESSION (localStorage s) = Some (Wellformed su)"
  have miss: "lookup Map.empty (email su) = None"
    by (simp add: lookup_def)
  show "SESSION (localStorage (initialization s)) = Some (Wellformed su)"
    using ses
    by (simp add: initialization_wellformed_session [OF ses] restore_session_repairs [OF db miss])
  show "user (initialization s) = Some su"
    by (simp add: initialization_wellformed_session [OF ses] restore_session_repairs [OF db miss])
next
  assume "USERS_DB (localStorage s) = Some (Unparsable raw) \<and> raw \<noteq> []"
  then show db: "read_db (localStorage s) = Inl SyntaxError"
    by (simp add: read_db_unparsable)
  show "handleLogin u s = Thrown SyntaxError s"
    by (rule handleLogin_unreadable [OF db])
  show "persistUser u s =
          Thrown SyntaxError
            (s\<lparr>user := Some u,
               localStorage := (localStorage s)\<lparr>SESSION := Some (JSON_stringify u)\<rparr>\<rparr>)"
    by (rule persistUser_unreadable [OF db])
qed

theorem directory_text_absent_or_unparsable_witness:
  "USERS_DB (localStorage session_without_directory) = None
   \<and> SESSION (localStorage session_without_directory) = Some (Wellformed alice)
   \<and> returns (persistUser bob session_without_directory)
   \<and> returns (handleLogin bob session_without_directory)
   \<and> SESSION (localStorage (initialization session_without_directory)) = Some (Wellformed alice)
   \<and> USERS_DB (localStorage session_with_corrupt_directory) = Some (Unparsable ''{not json'')
   \<and> SESSION (localStorage session_with_corrupt_directory) = Some (Wellformed alice)
   \<and> handleLogin bob session_with_corrupt_directory
        = Thrown SyntaxError session_with_corrupt_directory
   \<and> \<not> returns (persistUser bob session_with_corrupt_directory)"
proof -
  have a: "USERS_DB (localStorage session_without_directory) = None"
    "SESSION (localStorage session_without_directory) = Some (Wellformed alice)"
    by (simp_all add: session_without_directory_def initial_state_def JSON_stringify_def)
  have c: "USERS_DB (localStorage session_with_corrupt_directory) = Some (Unparsable ''{not json'')"
    "SESSION (localStorage session_with_corrupt_directory) = Some (Wellformed alice)"
    by (simp_all add: session_with_corrupt_directory_def initial_state_def JSON_stringify_def)
  show ?thesis
    using directory_text_absent_or_unparsable
            [of session_without_directory bob alice "''{not json''"]
          directory_text_absent_or_unparsable
            [of session_with_corrupt_directory bob alice "''{not json''"]
          a c
    by simp
qed

section \<open>Writes of a signed-in user\<close>



section \<open>Checkout: the Order Processor\<close>





text \<open>
  Claim C9. With an empty live cart \<^verbatim>\<open>processOrder\<close> returns at once with the state it
  was called in: no order is built, the live account, its order history and its cart are
  unchanged, and so is each of the three stored texts.
\<close>

theorem empty_cart_checkout_is_noop:
  assumes "cartItems s = []"
  shows "processOrder rnd now d s = Returned s
    \<and> user (state_of (processOrder rnd now d s)) = user s
    \<and> cartItems (state_of (processOrder rnd now d s)) = cartItems s
    \<and> SESSION (localStorage (state_of (processOrder rnd now d s))) = SESSION (localStorage s)
    \<and> USERS_DB (localStorage (state_of (processOrder rnd now d s))) = USERS_DB (localStorage s)
    \<and> GUEST_CART (localStorage (state_of (processOrder rnd now d s)))
        = GUEST_CART (localStorage s)"
  using assms by (simp add: processOrder_def)

theorem empty_cart_checkout_is_noop_witness:
  "cartItems (alice_signed_in\<lparr>cartItems := []\<rparr>) = []
   \<and> processOrder ''K3J9X0QZ1'' ''2024-05-01T10:00:00.000Z'' home (alice_signed_in\<lparr>cartItems := []\<rparr>)
       = Returned (alice_signed_in\<lparr>cartItems := []\<rparr>)
   \<and> user (state_of (processOrder ''K3J9X0QZ1'' ''2024-05-01T10:00:00.000Z'' home
               (alice_signed_in\<lparr>cartItems := []\<rparr>))) = Some alice"
  using empty_cart_checkout_is_noop
          [of "alice_signed_in\<lparr>cartItems := []\<rparr>" "''K3J9X0QZ1''" "''2024-05-01T10:00:00.000Z''" home]
  by (simp add: alice_signed_in_facts)

section \<open>Removing from the cart\<close>

text \<open>
  Claim C10. \<^verbatim>\<open>removeFromCart(id)\<close> leaves as the live cart the old cart without every
  entry whose identifier is \<open>id\<close>: no entry with that identifier remains, however many
  there were; the entries with other identifiers are all kept, in their order; the cart
  shrinks by the number of entries that carried the identifier. This holds whether or
  not the call returns.
\<close>

theorem removeFromCart_removes_every_occurrence:
  "cartItems (state_of (removeFromCart i s)) = filter (\<lambda>item. product_id item \<noteq> i) (cartItems s)
   \<and> (\<forall>item \<in> set (cartItems (state_of (removeFromCart i s))). product_id item \<noteq> i)
   \<and> (\<forall>item \<in> set (cartItems s).
         product_id item \<noteq> i \<longrightarrow>
           count_list (cartItems (state_of (removeFromCart i s))) item
             = count_list (cartItems s) item)
   \<and> length (cartItems (state_of (removeFromCart i s)))
       + length (filter (\<lambda>item. product_id item = i) (cartItems s)) = length (cartItems s)
   \<and> (\<forall>n item rest. product_id item = i \<and> cartItems s = replicate n item @ rest \<longrightarrow>
         cartItems (state_of (removeFromCart i s)) = filter (\<lambda>item. product_id item \<noteq> i) rest)"
proof -
  have c: "cartItems (state_of (removeFromCart i s))
             = filter (\<lambda>item. product_id item \<noteq> i) (cartItems s)"
  proof (cases "user s")
    case None
    then show ?thesis
      by (simp add: removeFromCart_def Let_def persistGuestCart_def)
  next
    case (Some u)
    then show ?thesis
      by (cases "read_db (localStorage s)")
        (simp_all add: removeFromCart_def Let_def persistUser_def read_db_SESSION_update)
  qed
  have cnt: "count_list (filter P xs) x = count_list xs x" if "P x" for P and xs :: "Product list" and x
    using that by (induction xs) auto
  have len: "length (filter P xs) + length (filter (\<lambda>x. \<not> P x) xs) = length xs"
    for P and xs :: "Product list"
    by (induction xs) auto
  have rep: "filter (\<lambda>item. product_id item \<noteq> i) (replicate n item) = []"
    if "product_id item = i" for n and item :: Product
    using that by simp
  show ?thesis
    unfolding c using len [of "\<lambda>item. product_id item \<noteq> i" "cartItems s"]
    by (auto simp: cnt rep)
qed

theorem removeFromCart_removes_every_occurrence_witness:
  "cartItems (alice_signed_in\<lparr>cartItems := [p2, p1, p2, p3, p2]\<rparr>) = [p2, p1, p2, p3, p2]
   \<and> cartItems (state_of (removeFromCart ''p2'' (alice_signed_in\<lparr>cartItems := [p2, p1, p2, p3, p2]\<rparr>)))
       = [p1, p3]
   \<and> map product_id (cartItems (state_of
          (removeFromCart ''p2'' (alice_signed_in\<lparr>cartItems := [p2, p1, p2, p3, p2]\<rparr>))))
       = [''p1'', ''p3'']"
  using removeFromCart_removes_every_occurrence
          [of "''p2''" "alice_signed_in\<lparr>cartItems := [p2, p1, p2, p3, p2]\<rparr>"]
  by (simp add: p1_def p2_def p3_def)

section \<open>Round trip through the Record Codec\<close>







text \<open>The round trip is not one of a codec that ignores the optional fields: an absent
  password has no key in the encoded tree, a present one has.\<close>

lemma encode_User_password_key:
  "\<exists>kvs. encode_User u = JObject kvs
         \<and> map_of kvs ''password'' = map_option JString (password u)"
  by (cases "password u") (simp_all add: encode_User_def optional_property_def)


end
